theory Spec2Isabelle
  imports Main
begin

section \<open>The \<open>nexus_security_user\<close> resource\<close>

text \<open>
  A shallow embedding of \<^verbatim>\<open>nexus/resource_security_user.go\<close>: the schema descriptor
  and the lifecycle callbacks Create, Read, Update, Delete and Exists. The callbacks work
  on two objects that the file receives from outside: the host's \<^verbatim>\<open>*schema.ResourceData\<close>
  and the \<^verbatim>\<open>*nexus.NexusClient\<close>. Both are modelled by what the callbacks use of them.
\<close>

subsection \<open>Errors and the remote user record\<close>

text \<open>
  A Go \<^verbatim>\<open>error\<close> is an opaque value; the return type \<^verbatim>\<open>error\<close> is \<open>error option\<close>,
  with \<open>None\<close> for \<^verbatim>\<open>nil\<close>.
\<close>

datatype error = Error string

text \<open>
  \<^verbatim>\<open>security.User\<close> of the client library, with the seven fields that
  \<^verbatim>\<open>getSecurityUserFromResourceData\<close> fills and \<^verbatim>\<open>resourceSecurityUserRead\<close> reads.
\<close>

record User =
  UserID :: string
  FirstName :: string
  LastName :: string
  EmailAddress :: string
  Password :: string
  Status :: string
  Roles :: "string list"

subsection \<open>The host's resource data\<close>

text \<open>
  The attributes of the resource as the schema types them: six strings and one set of
  strings (\<^verbatim>\<open>schema.TypeSet\<close> with string elements).
\<close>

record attributes =
  userid :: string
  firstname :: string
  lastname :: string
  email :: string
  password :: string
  status :: string
  roles :: "string set"

text \<open>
  \<^verbatim>\<open>schema.ResourceData\<close> is the host's type, declared outside this repository; the
  record has what the callbacks use of it: the identity (\<^verbatim>\<open>d.Id()\<close>, \<^verbatim>\<open>d.SetId\<close>), the
  attributes of the prior state, and the current attributes, which \<^verbatim>\<open>d.Get\<close> reads and
  \<^verbatim>\<open>d.Set\<close> writes. The schema fixes the type of every attribute, so the type
  assertions of \<^verbatim>\<open>getSecurityUserFromResourceData\<close> cannot fail.
\<close>

record ResourceData =
  dId :: string
  prior :: attributes
  attrs :: attributes

definition SetId :: "string \<Rightarrow> ResourceData \<Rightarrow> ResourceData" where
  "SetId v d = d\<lparr>dId := v\<rparr>"

text \<open>
  Modelled from the spec: \<^verbatim>\<open>d.HasChange(k)\<close> is the host's; the spec has Update work on
  the fields that differ from the prior state. It compares attribute \<open>k\<close> of the prior
  state with the current one, sets as sets, and is false for a name that is not an
  attribute. The callbacks call it only before their first \<^verbatim>\<open>d.Set\<close>.
\<close>

definition HasChange :: "ResourceData \<Rightarrow> string \<Rightarrow> bool" where
  "HasChange d k =
     (if k = ''userid'' then userid (prior d) \<noteq> userid (attrs d)
      else if k = ''firstname'' then firstname (prior d) \<noteq> firstname (attrs d)
      else if k = ''lastname'' then lastname (prior d) \<noteq> lastname (attrs d)
      else if k = ''email'' then email (prior d) \<noteq> email (attrs d)
      else if k = ''password'' then password (prior d) \<noteq> password (attrs d)
      else if k = ''status'' then status (prior d) \<noteq> status (attrs d)
      else if k = ''roles'' then roles (prior d) \<noteq> roles (attrs d)
      else False)"

text \<open>
  Modelled from the spec: \<^verbatim>\<open>interfaceSliceToStringSlice\<close> is a helper of the package
  defined outside this file. It converts a \<^verbatim>\<open>[]interface{}\<close> of strings to a
  \<^verbatim>\<open>[]string\<close>, element by element; the spec has the roles as role names on both
  sides. On a list of strings it is the identity.
\<close>

definition interfaceSliceToStringSlice :: "string list \<Rightarrow> string list" where
  "interfaceSliceToStringSlice xs = xs"

text \<open>
  Modelled from the spec: \<^verbatim>\<open>stringSliceToInterfaceSlice\<close> is a helper of the package
  defined outside this file, the conversion back. On a list of strings it is the
  identity.
\<close>

definition stringSliceToInterfaceSlice :: "string list \<Rightarrow> string list" where
  "stringSliceToInterfaceSlice xs = xs"

text \<open>
  \<^verbatim>\<open>(*schema.Set).List()\<close> lists the elements of a set in the order of their hash
  codes. The hash is the host's, so the listing is a parameter \<open>List\<close> of the model:
  a function from the set to a list of its elements.
\<close>

definition getSecurityUserFromResourceData ::
  "(string set \<Rightarrow> string list) \<Rightarrow> ResourceData \<Rightarrow> User" where
  "getSecurityUserFromResourceData List d =
     \<lparr>UserID = userid (attrs d),
      FirstName = firstname (attrs d),
      LastName = lastname (attrs d),
      EmailAddress = email (attrs d),
      Password = password (attrs d),
      Status = status (attrs d),
      Roles = interfaceSliceToStringSlice (List (roles (attrs d)))\<rparr>"

subsection \<open>The client\<close>

text \<open>
  \<^verbatim>\<open>client.Security.User\<close>: five operations on a remote system whose state has some
  type \<open>'c\<close>. Each takes the remote state and returns its Go results with the next
  remote state. \<^verbatim>\<open>Get\<close> returns the pair \<^verbatim>\<open>(*User, error)\<close>; a \<^verbatim>\<open>nil\<close> user is
  \<open>None\<close>.
\<close>

record 'c NexusClient =
  User_Create :: "User \<Rightarrow> 'c \<Rightarrow> error option \<times> 'c"
  User_Get :: "string \<Rightarrow> 'c \<Rightarrow> (User option \<times> error option) \<times> 'c"
  User_ChangePassword :: "string \<Rightarrow> string \<Rightarrow> 'c \<Rightarrow> error option \<times> 'c"
  User_Update :: "string \<Rightarrow> User \<Rightarrow> 'c \<Rightarrow> error option \<times> 'c"
  User_Delete :: "string \<Rightarrow> 'c \<Rightarrow> error option \<times> 'c"

text \<open>
  To state which calls a callback issues, every client call is recorded, with its
  arguments, at the end of a log that travels with the remote state.
\<close>

datatype call =
  CallCreate User
  | CallGet string
  | CallChangePassword string string
  | CallUpdate string User
  | CallDelete string

record 'c world =
  remote :: 'c
  calls :: "call list"

definition issue :: "call \<Rightarrow> 'r \<times> 'c \<Rightarrow> 'c world \<Rightarrow> 'r \<times> 'c world" where
  "issue c res w = (fst res, \<lparr>remote = snd res, calls = calls w @ [c]\<rparr>)"

definition client_Create :: "'c NexusClient \<Rightarrow> User \<Rightarrow> 'c world \<Rightarrow> error option \<times> 'c world" where
  "client_Create m user w = issue (CallCreate user) (User_Create m user (remote w)) w"

definition client_Get ::
  "'c NexusClient \<Rightarrow> string \<Rightarrow> 'c world \<Rightarrow> (User option \<times> error option) \<times> 'c world" where
  "client_Get m i w = issue (CallGet i) (User_Get m i (remote w)) w"

definition client_ChangePassword ::
  "'c NexusClient \<Rightarrow> string \<Rightarrow> string \<Rightarrow> 'c world \<Rightarrow> error option \<times> 'c world" where
  "client_ChangePassword m i pw w =
     issue (CallChangePassword i pw) (User_ChangePassword m i pw (remote w)) w"

definition client_Update ::
  "'c NexusClient \<Rightarrow> string \<Rightarrow> User \<Rightarrow> 'c world \<Rightarrow> error option \<times> 'c world" where
  "client_Update m i user w = issue (CallUpdate i user) (User_Update m i user (remote w)) w"

definition client_Delete :: "'c NexusClient \<Rightarrow> string \<Rightarrow> 'c world \<Rightarrow> error option \<times> 'c world" where
  "client_Delete m i w = issue (CallDelete i) (User_Delete m i (remote w)) w"

subsection \<open>The lifecycle callbacks\<close>

text \<open>
  A callback takes the resource data and the world and returns its Go result with the
  resource data and the world as it leaves them.
\<close>

definition resourceSecurityUserRead ::
  "'c NexusClient \<Rightarrow> ResourceData \<Rightarrow> 'c world \<Rightarrow> error option \<times> ResourceData \<times> 'c world" where
  "resourceSecurityUserRead m d w =
     (case client_Get m (dId d) w of
        ((user, err), w') \<Rightarrow>
          (case err of
             Some e \<Rightarrow> (Some e, d, w')
           | None \<Rightarrow>
               (case user of
                  None \<Rightarrow> (None, SetId '''' d, w')
                | Some u \<Rightarrow>
                    (None,
                     d\<lparr>attrs := (attrs d)
                        \<lparr>email := EmailAddress u,
                         firstname := FirstName u,
                         lastname := LastName u,
                         roles := set (stringSliceToInterfaceSlice (Roles u)),
                         status := Status u,
                         userid := UserID u\<rparr>\<rparr>,
                     w'))))"

definition resourceSecurityUserCreate ::
  "(string set \<Rightarrow> string list) \<Rightarrow> 'c NexusClient \<Rightarrow> ResourceData \<Rightarrow> 'c world
     \<Rightarrow> error option \<times> ResourceData \<times> 'c world" where
  "resourceSecurityUserCreate List m d w =
     (let user = getSecurityUserFromResourceData List d in
      case client_Create m user w of
        (Some err, w') \<Rightarrow> (Some err, d, w')
      | (None, w') \<Rightarrow> resourceSecurityUserRead m (SetId (UserID user) d) w')"

definition resourceSecurityUserUpdate ::
  "(string set \<Rightarrow> string list) \<Rightarrow> 'c NexusClient \<Rightarrow> ResourceData \<Rightarrow> 'c world
     \<Rightarrow> error option \<times> ResourceData \<times> 'c world" where
  "resourceSecurityUserUpdate List m d w =
     (case (if HasChange d ''password''
            then client_ChangePassword m (dId d) (password (attrs d)) w
            else (None, w)) of
        (Some err, w1) \<Rightarrow> (Some err, d, w1)
      | (None, w1) \<Rightarrow>
          (case (if HasChange d ''firstname'' \<or> HasChange d ''lastname'' \<or> HasChange d ''email''
                    \<or> HasChange d ''status'' \<or> HasChange d ''roles''
                 then client_Update m (dId d) (getSecurityUserFromResourceData List d) w1
                 else (None, w1)) of
             (Some err, w2) \<Rightarrow> (Some err, d, w2)
           | (None, w2) \<Rightarrow> resourceSecurityUserRead m d w2))"

definition resourceSecurityUserDelete ::
  "'c NexusClient \<Rightarrow> ResourceData \<Rightarrow> 'c world \<Rightarrow> error option \<times> ResourceData \<times> 'c world" where
  "resourceSecurityUserDelete m d w =
     (case client_Delete m (dId d) w of
        (Some err, w') \<Rightarrow> (Some err, d, w')
      | (None, w') \<Rightarrow> (None, SetId '''' d, w'))"

definition resourceSecurityUserExists ::
  "'c NexusClient \<Rightarrow> ResourceData \<Rightarrow> 'c world \<Rightarrow> (bool \<times> error option) \<times> 'c world" where
  "resourceSecurityUserExists m d w =
     (case client_Get m (dId d) w of
        ((user, err), w') \<Rightarrow> ((user \<noteq> None, err), w'))"

subsection \<open>The resource descriptor\<close>

text \<open>
  \<^verbatim>\<open>schema.Schema\<close>, with the fields that \<^verbatim>\<open>resourceSecurityUser\<close> sets. A value of
  the configuration is a string or a set of strings. \<open>zeroSchema\<close> is the Go zero value
  of the struct, which a struct literal starts from.
\<close>

datatype ValueType = TypeInvalid | TypeString | TypeSet

datatype val = StringVal string | SetVal "string set"

record Schema =
  Description :: string
  Type :: ValueType
  Elem :: "ValueType option"
  Required :: bool
  Optional :: bool
  ForceNew :: bool
  Sensitive :: bool
  Default :: "string option"
  ValidateFunc :: "(val \<Rightarrow> string \<Rightarrow> string list \<times> error list) option"

definition zeroSchema :: Schema where
  "zeroSchema =
     \<lparr>Description = '''', Type = TypeInvalid, Elem = None, Required = False, Optional = False,
      ForceNew = False, Sensitive = False, Default = None, ValidateFunc = None\<rparr>"

text \<open>
  Modelled from the spec: \<^verbatim>\<open>strings.ToLower\<close> is Go's library and not in this
  repository; here it lowers the ASCII letters. The descriptor never asks for it: it
  passes \<^verbatim>\<open>false\<close> for \<open>ignoreCase\<close>.
\<close>

definition ToLower :: "string \<Rightarrow> string" where
  "ToLower v =
     map (\<lambda>c. if 65 \<le> (of_char c :: nat) \<and> (of_char c :: nat) \<le> 90
               then char_of (of_char c + 32 :: nat) else c) v"

text \<open>
  Modelled from the spec: the formatting of a list of strings in the error message of
  \<^verbatim>\<open>validation.StringInSlice\<close>, the elements separated by one space.
\<close>

fun joinSpace :: "string list \<Rightarrow> string" where
  "joinSpace [] = ''''"
| "joinSpace [x] = x"
| "joinSpace (x # y # ys) = x @ '' '' @ joinSpace (y # ys)"

text \<open>
  Modelled from the spec: \<^verbatim>\<open>validation.StringInSlice\<close> belongs to the host's SDK and is
  not in this repository. The spec has the status field constrained to the listed
  values, any other value rejected. The function returns warnings and errors; a value
  that is no string or that matches none of \<open>valid\<close> gets one error. With
  \<open>ignoreCase\<close> the comparison is of the lower-cased strings.
\<close>

definition StringInSlice :: "string list \<Rightarrow> bool \<Rightarrow> val \<Rightarrow> string \<Rightarrow> string list \<times> error list" where
  "StringInSlice valid ignoreCase i k =
     (case i of
        SetVal _ \<Rightarrow> ([], [Error (''expected type of '' @ k @ '' to be string'')])
      | StringVal v \<Rightarrow>
          (if \<exists>str \<in> set valid. v = str \<or> (ignoreCase \<and> ToLower v = ToLower str)
           then ([], [])
           else ([], [Error (''expected '' @ k @ '' to be one of ['' @ joinSpace valid
                              @ ''], got '' @ v)])))"

text \<open>The \<^verbatim>\<open>Schema\<close> map of \<^verbatim>\<open>resourceSecurityUser\<close>, in the order of the source.\<close>

definition resourceSecurityUser_Schema :: "(string \<times> Schema) list" where
  "resourceSecurityUser_Schema =
     [(''userid'', zeroSchema
         \<lparr>Description := ''The userid which is required for login. This value cannot be changed.'',
          ForceNew := True,
          Type := TypeString,
          Required := True\<rparr>),
      (''firstname'', zeroSchema
         \<lparr>Description := ''The first name of the user.'',
          Type := TypeString,
          Required := True\<rparr>),
      (''lastname'', zeroSchema
         \<lparr>Description := ''The last name of the user.'',
          Type := TypeString,
          Required := True\<rparr>),
      (''email'', zeroSchema
         \<lparr>Description := ''The email address associated with the user.'',
          Type := TypeString,
          Required := True\<rparr>),
      (''password'', zeroSchema
         \<lparr>Description := ''The password for the user.'',
          Type := TypeString,
          Required := True,
          Sensitive := True\<rparr>),
      (''roles'', zeroSchema
         \<lparr>Description := ''The roles which the user has been assigned within Nexus.'',
          Elem := Some TypeString,
          Optional := True,
          Type := TypeSet\<rparr>),
      (''status'', zeroSchema
         \<lparr>Default := Some ''active'',
          Description := ''The user's status, e.g. active or disabled.'',
          Type := TypeString,
          Optional := True,
          ValidateFunc := Some (StringInSlice [''active'', ''disabled''] False)\<rparr>)]"

subsection \<open>The host runtime\<close>

text \<open>
  The host plugin runtime (the SDK's validation, planning and apply) is not in this
  repository; the definitions of this subsection model it from the spec, which gives its
  contract: a configuration that fails a constraint of the schema is rejected before any
  remote call; an omitted optional attribute takes the schema's default; the lifecycle
  is absent, created, updated, deleted, driven by the host; and a change of an attribute
  that forces recreation replaces the resource instead of updating it in place.

  A configuration block maps an attribute name to its value, \<open>None\<close> when omitted. The
  persisted state is \<open>None\<close> for an absent resource, or its identity and attributes.
\<close>

type_synonym config = "string \<rightharpoonup> val"

text \<open>
  Modelled from the spec: the host's validation of one attribute, missing from the
  repository. A required attribute must be present, a present one must have the type of
  the schema and pass the schema's validation function.
\<close>

definition validateAttribute :: "string \<Rightarrow> Schema \<Rightarrow> config \<Rightarrow> error list" where
  "validateAttribute k s c =
     (case c k of
        None \<Rightarrow> (if Required s then [Error (''missing required argument '' @ k)] else [])
      | Some v \<Rightarrow>
          (if (case v of StringVal _ \<Rightarrow> Type s \<noteq> TypeString | SetVal _ \<Rightarrow> Type s \<noteq> TypeSet)
           then [Error (''wrong type for '' @ k)]
           else (case ValidateFunc s of None \<Rightarrow> [] | Some f \<Rightarrow> snd (f v k))))"

text \<open>
  Modelled from the spec: the host's validation of a configuration, missing from the
  repository: the errors of all attributes of the schema.
\<close>

definition validateConfig :: "(string \<times> Schema) list \<Rightarrow> config \<Rightarrow> error list" where
  "validateConfig sch c = concat (map (\<lambda>(k, s). validateAttribute k s c) sch)"

text \<open>
  Modelled from the spec: the host's reading of a string attribute of the configuration,
  missing from the repository: the configured value, else the default of the schema,
  else the empty string.
\<close>

definition configString :: "(string \<times> Schema) list \<Rightarrow> config \<Rightarrow> string \<Rightarrow> string" where
  "configString sch c k =
     (case c k of
        Some (StringVal v) \<Rightarrow> v
      | _ \<Rightarrow> (case map_of sch k of
                None \<Rightarrow> ''''
              | Some s \<Rightarrow> (case Default s of None \<Rightarrow> '''' | Some v \<Rightarrow> v)))"

text \<open>
  Modelled from the spec: the host's reading of a set attribute of the configuration,
  missing from the repository: the configured set, else the empty set.
\<close>

definition configSet :: "config \<Rightarrow> string \<Rightarrow> string set" where
  "configSet c k = (case c k of Some (SetVal S) \<Rightarrow> S | _ \<Rightarrow> {})"

text \<open>
  Modelled from the spec: the attributes that the host plans from a configuration,
  missing from the repository.
\<close>

definition plannedAttributes :: "config \<Rightarrow> attributes" where
  "plannedAttributes c =
     \<lparr>userid = configString resourceSecurityUser_Schema c ''userid'',
      firstname = configString resourceSecurityUser_Schema c ''firstname'',
      lastname = configString resourceSecurityUser_Schema c ''lastname'',
      email = configString resourceSecurityUser_Schema c ''email'',
      password = configString resourceSecurityUser_Schema c ''password'',
      status = configString resourceSecurityUser_Schema c ''status'',
      roles = configSet c ''roles''\<rparr>"

text \<open>The attributes of an absent resource: the zero value of every type.\<close>

definition zeroAttributes :: attributes where
  "zeroAttributes =
     \<lparr>userid = '''', firstname = '''', lastname = '''', email = '''', password = '''',
      status = '''', roles = {}\<rparr>"

text \<open>
  Modelled from the spec: the host's test for replacement, missing from the
  repository: an attribute that the schema marks \<^verbatim>\<open>ForceNew\<close> differs from the state.
\<close>

definition requiresNew :: "(string \<times> Schema) list \<Rightarrow> ResourceData \<Rightarrow> bool" where
  "requiresNew sch d = (\<exists>(k, s) \<in> set sch. ForceNew s \<and> HasChange d k)"

text \<open>
  Modelled from the spec: the host's test for a difference between configuration and
  state, missing from the repository.
\<close>

definition anyChange :: "(string \<times> Schema) list \<Rightarrow> ResourceData \<Rightarrow> bool" where
  "anyChange sch d = (\<exists>(k, s) \<in> set sch. HasChange d k)"

text \<open>
  Modelled from the spec: what the host persists after a callback, missing from the
  repository: the error if any, and the resource, absent when it has no identity.
\<close>

definition persist ::
  "error option \<times> ResourceData \<times> 'c world \<Rightarrow> error list \<times> (string \<times> attributes) option \<times> 'c world" where
  "persist r =
     (case r of
        (err, d, w) \<Rightarrow>
          ((case err of None \<Rightarrow> [] | Some e \<Rightarrow> [e]),
           (if dId d = '''' then None else Some (dId d, attrs d)),
           w))"

text \<open>
  Modelled from the spec: the host's creation of an absent resource, missing from the
  repository: the Create callback on resource data without identity or prior state.
\<close>

definition hostCreate ::
  "(string set \<Rightarrow> string list) \<Rightarrow> 'c NexusClient \<Rightarrow> attributes \<Rightarrow> 'c world
     \<Rightarrow> error list \<times> (string \<times> attributes) option \<times> 'c world" where
  "hostCreate List m new w =
     persist (resourceSecurityUserCreate List m \<lparr>dId = '''', prior = zeroAttributes, attrs = new\<rparr> w)"

text \<open>
  Modelled from the spec: the host's replacement of a resource, missing from the
  repository: the Delete callback on the state, then, when it succeeds, the creation.
\<close>

definition hostReplace ::
  "(string set \<Rightarrow> string list) \<Rightarrow> 'c NexusClient \<Rightarrow> string \<Rightarrow> attributes \<Rightarrow> attributes \<Rightarrow> 'c world
     \<Rightarrow> error list \<times> (string \<times> attributes) option \<times> 'c world" where
  "hostReplace List m i old new w =
     (case resourceSecurityUserDelete m \<lparr>dId = i, prior = old, attrs = old\<rparr> w of
        (Some e, d', w') \<Rightarrow> persist (Some e, d', w')
      | (None, d', w') \<Rightarrow> hostCreate List m new w')"

text \<open>
  Modelled from the spec: the host's handling of a configuration against the state,
  missing from the repository. An invalid configuration is rejected with its errors and
  nothing else happens. A valid one creates an absent resource, replaces a resource
  whose change requires it, updates a resource that differs otherwise, and leaves alone
  one that does not differ.
\<close>

definition hostApply ::
  "(string set \<Rightarrow> string list) \<Rightarrow> 'c NexusClient \<Rightarrow> config \<Rightarrow> (string \<times> attributes) option
     \<Rightarrow> 'c world \<Rightarrow> error list \<times> (string \<times> attributes) option \<times> 'c world" where
  "hostApply List m c st w =
     (case validateConfig resourceSecurityUser_Schema c of
        e # es \<Rightarrow> (e # es, st, w)
      | [] \<Rightarrow>
          (case st of
             None \<Rightarrow> hostCreate List m (plannedAttributes c) w
           | Some (i, old) \<Rightarrow>
               (let d = \<lparr>dId = i, prior = old, attrs = plannedAttributes c\<rparr> in
                if requiresNew resourceSecurityUser_Schema d
                then hostReplace List m i old (plannedAttributes c) w
                else if anyChange resourceSecurityUser_Schema d
                then persist (resourceSecurityUserUpdate List m d w)
                else ([], st, w))))"

subsection \<open>Vocabulary for the properties\<close>

text \<open>The calls that an invocation started in world \<open>w\<close> and ended in \<open>w'\<close> has issued.\<close>

definition issued :: "'c world \<Rightarrow> 'c world \<Rightarrow> call list" where
  "issued w w' = drop (length (calls w)) (calls w')"

text \<open>The condition of the second \<^verbatim>\<open>if\<close> of \<^verbatim>\<open>resourceSecurityUserUpdate\<close>.\<close>

definition profileChanged :: "ResourceData \<Rightarrow> bool" where
  "profileChanged d =
     (HasChange d ''firstname'' \<or> HasChange d ''lastname'' \<or> HasChange d ''email''
      \<or> HasChange d ''status'' \<or> HasChange d ''roles'')"

text \<open>The password differs from the prior state and the client refuses to change it.\<close>

definition passwordRefused :: "'c NexusClient \<Rightarrow> ResourceData \<Rightarrow> 'c world \<Rightarrow> bool" where
  "passwordRefused m d w =
     (HasChange d ''password''
      \<and> fst (User_ChangePassword m (dId d) (password (attrs d)) (remote w)) \<noteq> None)"

text \<open>
  The remote state in which \<^verbatim>\<open>resourceSecurityUserUpdate\<close> reaches its second
  \<^verbatim>\<open>if\<close>, and the one in which it reaches its final Read.
\<close>

definition afterPassword :: "'c NexusClient \<Rightarrow> ResourceData \<Rightarrow> 'c world \<Rightarrow> 'c" where
  "afterPassword m d w =
     (if HasChange d ''password''
      then snd (User_ChangePassword m (dId d) (password (attrs d)) (remote w))
      else remote w)"

definition afterUpdate ::
  "(string set \<Rightarrow> string list) \<Rightarrow> 'c NexusClient \<Rightarrow> ResourceData \<Rightarrow> 'c world \<Rightarrow> 'c" where
  "afterUpdate List m d w =
     (if profileChanged d
      then snd (User_Update m (dId d) (getSecurityUserFromResourceData List d) (afterPassword m d w))
      else afterPassword m d w)"

text \<open>A profile field differs from the prior state and the client refuses the update.\<close>

definition updateRefused ::
  "(string set \<Rightarrow> string list) \<Rightarrow> 'c NexusClient \<Rightarrow> ResourceData \<Rightarrow> 'c world \<Rightarrow> bool" where
  "updateRefused List m d w =
     (profileChanged d
      \<and> fst (User_Update m (dId d) (getSecurityUserFromResourceData List d) (afterPassword m d w))
          \<noteq> None)"

fun isChangePassword :: "call \<Rightarrow> bool" where
  "isChangePassword (CallChangePassword i pw) = True"
| "isChangePassword c = False"

fun isUpdate :: "call \<Rightarrow> bool" where
  "isUpdate (CallUpdate i u) = True"
| "isUpdate c = False"

fun isGet :: "call \<Rightarrow> bool" where
  "isGet (CallGet i) = True"
| "isGet c = False"

text \<open>Two user records that agree on every field but the password.\<close>

definition samePublic :: "User \<Rightarrow> User \<Rightarrow> bool" where
  "samePublic u v =
     (UserID u = UserID v \<and> FirstName u = FirstName v \<and> LastName u = LastName v
      \<and> EmailAddress u = EmailAddress v \<and> Status u = Status v \<and> Roles u = Roles v)"

subsection \<open>An in-memory client and the example of the file's header\<close>

text \<open>
  A client for the concrete instances below: the remote system is a table from login id
  to user. It refuses to create a user that exists and to change or delete one that
  does not, and it never returns a password.
\<close>

definition memClient :: "(string \<rightharpoonup> User) NexusClient" where
  "memClient =
     \<lparr>User_Create = (\<lambda>u s. if s (UserID u) \<noteq> None then (Some (Error ''user exists''), s)
                            else (None, s(UserID u \<mapsto> u))),
      User_Get = (\<lambda>i s. ((map_option (\<lambda>u. u\<lparr>Password := ''''\<rparr>) (s i), None), s)),
      User_ChangePassword = (\<lambda>i pw s. case s i of
                                None \<Rightarrow> (Some (Error ''user not found''), s)
                              | Some u \<Rightarrow> (None, s(i \<mapsto> u\<lparr>Password := pw\<rparr>))),
      User_Update = (\<lambda>i u s. case s i of
                                None \<Rightarrow> (Some (Error ''user not found''), s)
                              | Some _ \<Rightarrow> (None, s(i \<mapsto> u))),
      User_Delete = (\<lambda>i s. case s i of
                                None \<Rightarrow> (Some (Error ''user not found''), s)
                              | Some _ \<Rightarrow> (None, s(i := None)))\<rparr>"

definition adminAttrs :: attributes where
  "adminAttrs =
     \<lparr>userid = ''admin'', firstname = ''Administrator'', lastname = ''User'',
      email = ''nexus@example.com'', password = ''admin123'', status = ''active'',
      roles = {''nx-admin''}\<rparr>"

definition adminUser :: User where
  "adminUser =
     \<lparr>UserID = ''admin'', FirstName = ''Administrator'', LastName = ''User'',
      EmailAddress = ''nexus@example.com'', Password = ''admin123'', Status = ''active'',
      Roles = [''nx-admin'']\<rparr>"

text \<open>A listing for sets with at most the one role of the example.\<close>

definition adminList :: "string set \<Rightarrow> string list" where
  "adminList S = (if ''nx-admin'' \<in> S then [''nx-admin''] else [])"

definition emptyWorld :: "(string \<rightharpoonup> User) world" where
  "emptyWorld = \<lparr>remote = Map.empty, calls = []\<rparr>"

definition adminWorld :: "(string \<rightharpoonup> User) world" where
  "adminWorld = \<lparr>remote = [''admin'' \<mapsto> adminUser], calls = []\<rparr>"

text \<open>The example as a configuration block, the status omitted.\<close>

definition adminConfig :: config where
  "adminConfig =
     [''userid'' \<mapsto> StringVal ''admin'', ''firstname'' \<mapsto> StringVal ''Administrator'',
      ''lastname'' \<mapsto> StringVal ''User'', ''email'' \<mapsto> StringVal ''nexus@example.com'',
      ''password'' \<mapsto> StringVal ''admin123'', ''roles'' \<mapsto> SetVal {''nx-admin''}]"

text \<open>
  The resource data of a create (no prior state) and of three updates of the existing
  resource: a new email, a new password, and both.
\<close>

definition createData :: ResourceData where
  "createData = \<lparr>dId = '''', prior = zeroAttributes, attrs = adminAttrs\<rparr>"

definition adminData :: ResourceData where
  "adminData = \<lparr>dId = ''admin'', prior = adminAttrs, attrs = adminAttrs\<rparr>"

definition emailData :: ResourceData where
  "emailData =
     \<lparr>dId = ''admin'', prior = adminAttrs, attrs = adminAttrs\<lparr>email := ''ops@example.com''\<rparr>\<rparr>"

definition passwordData :: ResourceData where
  "passwordData =
     \<lparr>dId = ''admin'', prior = adminAttrs, attrs = adminAttrs\<lparr>password := ''s3cret''\<rparr>\<rparr>"

definition bothData :: ResourceData where
  "bothData =
     \<lparr>dId = ''admin'', prior = adminAttrs,
      attrs = adminAttrs\<lparr>email := ''ops@example.com'', password := ''s3cret''\<rparr>\<rparr>"

text \<open>The example with a status outside the two values, and with another login id.\<close>

definition lockedConfig :: config where
  "lockedConfig = adminConfig(''status'' \<mapsto> StringVal ''locked'')"

definition rootConfig :: config where
  "rootConfig = adminConfig(''userid'' \<mapsto> StringVal ''root'')"

section \<open>Properties\<close>

subsection \<open>Auxiliary facts\<close>

lemma world_eta: "\<lparr>remote = remote w, calls = calls w\<rparr> = (w :: 'c world)"
  by (cases w) simp

lemma issued_append: "calls w' = calls w @ cs \<Longrightarrow> issued w w' = cs"
  by (simp add: issued_def)

lemma read_calls:
  "calls (snd (snd (resourceSecurityUserRead m d w))) = calls w @ [CallGet (dId d)]"
  by (simp add: resourceSecurityUserRead_def client_Get_def issue_def
      split: prod.splits option.splits)

lemma read_dId:
  "dId (fst (snd (resourceSecurityUserRead m d w))) =
     (if fst (User_Get m (dId d) (remote w)) = (None, None) then '''' else dId d)"
  by (auto simp add: resourceSecurityUserRead_def client_Get_def issue_def SetId_def
      split: prod.splits option.splits)

lemma read_some:
  assumes "User_Get m (dId d) (remote w) = ((Some u, None), c')"
  shows "resourceSecurityUserRead m d w =
           (None,
            \<lparr>dId = dId d, prior = prior d,
             attrs = \<lparr>userid = UserID u, firstname = FirstName u, lastname = LastName u,
                      email = EmailAddress u, password = password (attrs d), status = Status u,
                      roles = set (Roles u)\<rparr>\<rparr>,
            \<lparr>remote = c', calls = calls w @ [CallGet (dId d)]\<rparr>)"
  using assms
  by (simp add: resourceSecurityUserRead_def client_Get_def issue_def
        stringSliceToInterfaceSlice_def)

lemma create_calls:
  "calls (snd (snd (resourceSecurityUserCreate List m d w))) =
     calls w @ CallCreate (getSecurityUserFromResourceData List d)
       # (if fst (User_Create m (getSecurityUserFromResourceData List d) (remote w)) = None
          then [CallGet (userid (attrs d))] else [])"
proof -
  obtain e c where r: "User_Create m (getSecurityUserFromResourceData List d) (remote w) = (e, c)"
    by (cases "User_Create m (getSecurityUserFromResourceData List d) (remote w)")
  have uid: "UserID (getSecurityUserFromResourceData List d) = userid (attrs d)"
    by (simp add: getSecurityUserFromResourceData_def)
  show ?thesis
    using r
    by (cases e)
       (simp_all add: resourceSecurityUserCreate_def client_Create_def issue_def Let_def
          read_calls SetId_def uid)
qed

lemma delete_calls:
  "calls (snd (snd (resourceSecurityUserDelete m d w))) = calls w @ [CallDelete (dId d)]"
  by (simp add: resourceSecurityUserDelete_def client_Delete_def issue_def
      split: prod.splits option.splits)

text \<open>
  \<^verbatim>\<open>resourceSecurityUserUpdate\<close> by its three ways out: the refused password change, the
  refused update, and the final Read.
\<close>

lemma update_unfold:
  "resourceSecurityUserUpdate List m d w =
     (if passwordRefused m d w
      then (fst (User_ChangePassword m (dId d) (password (attrs d)) (remote w)), d,
            \<lparr>remote = afterPassword m d w,
             calls = calls w @ [CallChangePassword (dId d) (password (attrs d))]\<rparr>)
      else if updateRefused List m d w
      then (fst (User_Update m (dId d) (getSecurityUserFromResourceData List d)
                   (afterPassword m d w)), d,
            \<lparr>remote = afterUpdate List m d w,
             calls = calls w
               @ (if HasChange d ''password''
                  then [CallChangePassword (dId d) (password (attrs d))] else [])
               @ [CallUpdate (dId d) (getSecurityUserFromResourceData List d)]\<rparr>)
      else resourceSecurityUserRead m d
             \<lparr>remote = afterUpdate List m d w,
              calls = calls w
                @ (if HasChange d ''password''
                   then [CallChangePassword (dId d) (password (attrs d))] else [])
                @ (if profileChanged d
                   then [CallUpdate (dId d) (getSecurityUserFromResourceData List d)]
                   else [])\<rparr>)"
proof -
  have alt: "resourceSecurityUserUpdate List m d w =
     (case (if HasChange d ''password''
            then client_ChangePassword m (dId d) (password (attrs d)) w
            else (None, w)) of
        (Some err, w1) \<Rightarrow> (Some err, d, w1)
      | (None, w1) \<Rightarrow>
          (case (if profileChanged d
                 then client_Update m (dId d) (getSecurityUserFromResourceData List d) w1
                 else (None, w1)) of
             (Some err, w2) \<Rightarrow> (Some err, d, w2)
           | (None, w2) \<Rightarrow> resourceSecurityUserRead m d w2))"
    unfolding resourceSecurityUserUpdate_def profileChanged_def by (rule refl)
  obtain e1 c1 where
    p: "User_ChangePassword m (dId d) (password (attrs d)) (remote w) = (e1, c1)"
    by (cases "User_ChangePassword m (dId d) (password (attrs d)) (remote w)")
  obtain e2 c2 where
    u: "User_Update m (dId d) (getSecurityUserFromResourceData List d) (afterPassword m d w)
          = (e2, c2)"
    by (cases "User_Update m (dId d) (getSecurityUserFromResourceData List d)
                 (afterPassword m d w)")
  show ?thesis
  proof (cases "HasChange d ''password''")
    case True
    show ?thesis
    proof (cases e1)
      case None
      with True p u show ?thesis
        by (cases e2; cases "profileChanged d")
           (simp_all add: alt client_ChangePassword_def client_Update_def issue_def
              passwordRefused_def updateRefused_def afterPassword_def afterUpdate_def)
    next
      case (Some e)
      with True p show ?thesis
        by (simp add: alt client_ChangePassword_def issue_def passwordRefused_def
              afterPassword_def)
    qed
  next
    case False
    with u show ?thesis
      by (cases e2; cases "profileChanged d")
         (simp_all add: alt client_Update_def issue_def world_eta
            passwordRefused_def updateRefused_def afterPassword_def afterUpdate_def)
  qed
qed

lemma update_calls:
  "issued w (snd (snd (resourceSecurityUserUpdate List m d w))) =
     (if HasChange d ''password''
      then [CallChangePassword (dId d) (password (attrs d))] else [])
     @ (if passwordRefused m d w then []
        else (if profileChanged d
              then [CallUpdate (dId d) (getSecurityUserFromResourceData List d)] else [])
             @ (if updateRefused List m d w then [] else [CallGet (dId d)]))"
  by (rule issued_append)
     (simp add: update_unfold read_calls passwordRefused_def updateRefused_def)

lemma update_dId:
  "dId (fst (snd (resourceSecurityUserUpdate List m d w))) =
     (if \<not> passwordRefused m d w \<and> \<not> updateRefused List m d w
         \<and> fst (User_Get m (dId d) (afterUpdate List m d w)) = (None, None)
      then '''' else dId d)"
  by (simp add: update_unfold read_dId)

text \<open>The in-memory client on the example.\<close>

lemma example_user:
  "getSecurityUserFromResourceData adminList createData = adminUser"
  "getSecurityUserFromResourceData adminList emailData
     = adminUser\<lparr>EmailAddress := ''ops@example.com''\<rparr>"
  "getSecurityUserFromResourceData adminList bothData
     = adminUser\<lparr>EmailAddress := ''ops@example.com'', Password := ''s3cret''\<rparr>"
  by (simp_all add: getSecurityUserFromResourceData_def createData_def emailData_def
        bothData_def adminAttrs_def adminList_def adminUser_def interfaceSliceToStringSlice_def)

lemma example_changes:
  "\<not> HasChange emailData ''password''" "profileChanged emailData"
  "HasChange passwordData ''password''" "\<not> profileChanged passwordData"
  "HasChange bothData ''password''" "profileChanged bothData"
  by (simp_all add: HasChange_def profileChanged_def emailData_def passwordData_def
        bothData_def adminAttrs_def)

subsection \<open>Create, then Read\<close>

text \<open>
  C1. For every configuration, against a client that stores what Create submitted
  (Create succeeds, and a Get of the login id then returns a user that agrees with the
  submitted one on every field but the password), Create succeeds, a Read after it
  succeeds, and the local state then has the identity and the userid, firstname,
  lastname, email, status and roles of the configuration. The Read that Create itself
  ends with has already left the same attributes. The listing of the host's set must
  list the roles of the configuration.
\<close>

theorem create_then_read_roundtrip:
  assumes listing: "set (List (roles (attrs d))) = roles (attrs d)"
    and create: "User_Create m (getSecurityUserFromResourceData List d) (remote w) = (None, c1)"
    and get1: "User_Get m (userid (attrs d)) c1 = ((Some u1, None), c2)"
    and same1: "samePublic u1 (getSecurityUserFromResourceData List d)"
    and get2: "User_Get m (userid (attrs d)) c2 = ((Some u2, None), c3)"
    and same2: "samePublic u2 (getSecurityUserFromResourceData List d)"
  shows "let r1 = resourceSecurityUserCreate List m d w;
             r2 = resourceSecurityUserRead m (fst (snd r1)) (snd (snd r1));
             a = attrs (fst (snd r2))
         in fst r1 = None \<and> fst r2 = None \<and> dId (fst (snd r2)) = userid (attrs d)
            \<and> userid a = userid (attrs d) \<and> firstname a = firstname (attrs d)
            \<and> lastname a = lastname (attrs d) \<and> email a = email (attrs d)
            \<and> status a = status (attrs d) \<and> roles a = roles (attrs d)
            \<and> attrs (fst (snd r1)) = a"
proof -
  let ?user = "getSecurityUserFromResourceData List d"
  let ?w1 = "\<lparr>remote = c1, calls = calls w @ [CallCreate ?user]\<rparr>"
  let ?d0 = "d\<lparr>dId := userid (attrs d)\<rparr>"
  have uid: "UserID ?user = userid (attrs d)"
    by (simp add: getSecurityUserFromResourceData_def)
  have c: "resourceSecurityUserCreate List m d w = resourceSecurityUserRead m ?d0 ?w1"
    using create
    by (simp add: resourceSecurityUserCreate_def client_Create_def issue_def Let_def uid
          SetId_def)
  have g1: "User_Get m (dId ?d0) (remote ?w1) = ((Some u1, None), c2)"
    using get1 by simp
  note r1 = read_some [OF g1]
  let ?d1 = "fst (snd (resourceSecurityUserRead m ?d0 ?w1))"
  let ?w2 = "snd (snd (resourceSecurityUserRead m ?d0 ?w1))"
  have g2: "User_Get m (dId ?d1) (remote ?w2) = ((Some u2, None), c3)"
    using get2 by (simp add: r1)
  note r2 = read_some [OF g2]
  have vals: "UserID u1 = userid (attrs d)" "FirstName u1 = firstname (attrs d)"
    "LastName u1 = lastname (attrs d)" "EmailAddress u1 = email (attrs d)"
    "Status u1 = status (attrs d)" "set (Roles u1) = roles (attrs d)"
    "UserID u2 = userid (attrs d)" "FirstName u2 = firstname (attrs d)"
    "LastName u2 = lastname (attrs d)" "EmailAddress u2 = email (attrs d)"
    "Status u2 = status (attrs d)" "set (Roles u2) = roles (attrs d)"
    using same1 same2 listing
    by (simp_all add: samePublic_def getSecurityUserFromResourceData_def
          interfaceSliceToStringSlice_def)
  show ?thesis
    unfolding Let_def c r2 by (simp add: r1 vals)
qed

theorem create_then_read_roundtrip_witness:
  "let r1 = resourceSecurityUserCreate adminList memClient createData emptyWorld;
       r2 = resourceSecurityUserRead memClient (fst (snd r1)) (snd (snd r1));
       a = attrs (fst (snd r2))
   in fst r1 = None \<and> fst r2 = None \<and> dId (fst (snd r2)) = ''admin''
      \<and> userid a = ''admin'' \<and> firstname a = ''Administrator'' \<and> lastname a = ''User''
      \<and> email a = ''nexus@example.com'' \<and> status a = ''active'' \<and> roles a = {''nx-admin''}
      \<and> attrs (fst (snd r1)) = a"
proof -
  let ?u = "getSecurityUserFromResourceData adminList createData"
  let ?s = "[''admin'' \<mapsto> adminUser]"
  have a: "attrs createData = adminAttrs"
    by (simp add: createData_def)
  have h1: "set (adminList (roles (attrs createData))) = roles (attrs createData)"
    by (simp add: a adminAttrs_def adminList_def)
  have h2: "User_Create memClient ?u (remote emptyWorld) = (None, ?s)"
    by (simp add: example_user memClient_def emptyWorld_def adminUser_def)
  have h3: "User_Get memClient (userid (attrs createData)) ?s
              = ((Some (adminUser\<lparr>Password := ''''\<rparr>), None), ?s)"
    by (simp add: a memClient_def adminAttrs_def)
  have h4: "samePublic (adminUser\<lparr>Password := ''''\<rparr>) ?u"
    by (simp add: example_user samePublic_def)
  from create_then_read_roundtrip [OF h1 h2 h3 h4 h3 h4] show ?thesis
    by (simp add: a adminAttrs_def)
qed

subsection \<open>Read\<close>

text \<open>
  C3. When the client reports no such user (a nil user and no error), Read clears the
  identity of the resource and returns no error; it changes nothing else of the
  resource data.
\<close>

theorem read_not_found:
  assumes "User_Get m (dId d) (remote w) = ((None, None), c')"
  shows "resourceSecurityUserRead m d w =
           (None, d\<lparr>dId := ''''\<rparr>, \<lparr>remote = c', calls = calls w @ [CallGet (dId d)]\<rparr>)"
  using assms
  by (simp add: resourceSecurityUserRead_def client_Get_def issue_def SetId_def)

theorem read_not_found_witness:
  "resourceSecurityUserRead memClient adminData emptyWorld =
     (None, adminData\<lparr>dId := ''''\<rparr>, \<lparr>remote = Map.empty, calls = [CallGet ''admin'']\<rparr>)"
proof -
  have h: "User_Get memClient (dId adminData) (remote emptyWorld) = ((None, None), Map.empty)"
    by (simp add: memClient_def emptyWorld_def)
  from read_not_found [OF h] show ?thesis
    by (simp add: emptyWorld_def adminData_def)
qed

text \<open>
  C5. When the client returns an existing user, Read returns no error and leaves a
  local state whose email, firstname, lastname, roles, status and userid are those of
  the remote user (the roles as the set of the remote list), and whose password,
  identity and prior state are what they were.
\<close>

theorem read_found:
  assumes "User_Get m (dId d) (remote w) = ((Some u, None), c')"
  shows "fst (resourceSecurityUserRead m d w) = None
     \<and> email (attrs (fst (snd (resourceSecurityUserRead m d w)))) = EmailAddress u
     \<and> firstname (attrs (fst (snd (resourceSecurityUserRead m d w)))) = FirstName u
     \<and> lastname (attrs (fst (snd (resourceSecurityUserRead m d w)))) = LastName u
     \<and> roles (attrs (fst (snd (resourceSecurityUserRead m d w)))) = set (Roles u)
     \<and> status (attrs (fst (snd (resourceSecurityUserRead m d w)))) = Status u
     \<and> userid (attrs (fst (snd (resourceSecurityUserRead m d w)))) = UserID u
     \<and> password (attrs (fst (snd (resourceSecurityUserRead m d w)))) = password (attrs d)
     \<and> dId (fst (snd (resourceSecurityUserRead m d w))) = dId d
     \<and> prior (fst (snd (resourceSecurityUserRead m d w))) = prior d"
  by (simp add: read_some [OF assms])

theorem read_found_witness:
  "attrs (fst (snd (resourceSecurityUserRead memClient passwordData adminWorld)))
     = adminAttrs\<lparr>password := ''s3cret''\<rparr>"
proof -
  have h: "User_Get memClient (dId passwordData) (remote adminWorld)
             = ((Some (adminUser\<lparr>Password := ''''\<rparr>), None), [''admin'' \<mapsto> adminUser])"
    by (simp add: memClient_def adminWorld_def passwordData_def)
  from read_found [OF h] show ?thesis
    by (simp add: adminUser_def adminAttrs_def passwordData_def)
qed

subsection \<open>Create and Delete on a client error\<close>

text \<open>
  C4. When the client's create operation returns an error, Create returns that error,
  leaves the resource data (so its identity) as it was, and issues no further call.
\<close>

theorem create_error:
  assumes "User_Create m (getSecurityUserFromResourceData List d) (remote w) = (Some err, c')"
  shows "resourceSecurityUserCreate List m d w =
           (Some err, d,
            \<lparr>remote = c',
             calls = calls w @ [CallCreate (getSecurityUserFromResourceData List d)]\<rparr>)"
  using assms
  by (simp add: resourceSecurityUserCreate_def client_Create_def issue_def Let_def)

theorem create_error_witness:
  "resourceSecurityUserCreate adminList memClient createData adminWorld =
     (Some (Error ''user exists''), createData,
      \<lparr>remote = [''admin'' \<mapsto> adminUser], calls = [CallCreate adminUser]\<rparr>)"
proof -
  have h: "User_Create memClient (getSecurityUserFromResourceData adminList createData)
             (remote adminWorld) = (Some (Error ''user exists''), [''admin'' \<mapsto> adminUser])"
    by (simp add: example_user memClient_def adminWorld_def adminUser_def)
  from create_error [OF h] show ?thesis
    by (simp add: example_user adminWorld_def)
qed

text \<open>
  C8. Delete calls the client with the identity. When the client returns no error,
  Delete returns none and clears the identity; when the client returns an error, Delete
  returns that error and leaves the resource data, so the identity, as it was.
\<close>

theorem delete_result:
  "(User_Delete m (dId d) (remote w) = (None, c') \<longrightarrow>
      resourceSecurityUserDelete m d w =
        (None, d\<lparr>dId := ''''\<rparr>, \<lparr>remote = c', calls = calls w @ [CallDelete (dId d)]\<rparr>))
   \<and> (User_Delete m (dId d) (remote w) = (Some err, c') \<longrightarrow>
      resourceSecurityUserDelete m d w =
        (Some err, d, \<lparr>remote = c', calls = calls w @ [CallDelete (dId d)]\<rparr>))"
  by (simp add: resourceSecurityUserDelete_def client_Delete_def issue_def SetId_def)

theorem delete_result_witness:
  "resourceSecurityUserDelete memClient adminData adminWorld =
     (None, adminData\<lparr>dId := ''''\<rparr>, \<lparr>remote = Map.empty, calls = [CallDelete ''admin'']\<rparr>)
   \<and> resourceSecurityUserDelete memClient adminData emptyWorld =
     (Some (Error ''user not found''), adminData,
      \<lparr>remote = Map.empty, calls = [CallDelete ''admin'']\<rparr>)"
proof -
  have h1: "User_Delete memClient (dId adminData) (remote adminWorld) = (None, Map.empty)"
    by (simp add: memClient_def adminWorld_def adminData_def)
  have h2: "User_Delete memClient (dId adminData) (remote emptyWorld)
              = (Some (Error ''user not found''), Map.empty)"
    by (simp add: memClient_def emptyWorld_def)
  from delete_result [of memClient adminData adminWorld Map.empty] h1
       delete_result [of memClient adminData emptyWorld Map.empty "Error ''user not found''"] h2
  show ?thesis
    by (simp add: adminWorld_def emptyWorld_def adminData_def)
qed

subsection \<open>Update\<close>

text \<open>
  C2, as stated, fails: the email and the password both differ from the prior state, the
  client refuses the password change (it has no such user), and Update returns after the
  ChangePassword call without the general update call.
\<close>

theorem update_calls_counterexample:
  "HasChange bothData ''email''
   \<and> issued emptyWorld (snd (snd (resourceSecurityUserUpdate adminList memClient bothData emptyWorld)))
       = [CallChangePassword ''admin'' ''s3cret'']
   \<and> \<not> list_ex isUpdate
         (issued emptyWorld
            (snd (snd (resourceSecurityUserUpdate adminList memClient bothData emptyWorld))))"
proof -
  have r: "passwordRefused memClient bothData emptyWorld"
    by (simp add: passwordRefused_def example_changes)
       (simp add: memClient_def emptyWorld_def bothData_def)
  have e: "HasChange bothData ''email''"
    by (simp add: HasChange_def bothData_def adminAttrs_def)
  show ?thesis
    by (simp add: update_calls r e example_changes) (simp add: bothData_def adminAttrs_def)
qed

text \<open>
  C2, amended. In every Update invocation the ChangePassword call is issued if and only
  if the password differs from the prior state; the general update call is issued if and
  only if at least one of firstname, lastname, email, status and roles differs (this is
  \<open>profileChanged\<close>) and the
  ChangePassword call, when issued, returned no error; when the password and one of
  those fields differ and the ChangePassword call returned no error, both calls occur in
  the invocation, the ChangePassword call first.
\<close>

theorem update_calls_amended:
  "(list_ex isChangePassword (issued w (snd (snd (resourceSecurityUserUpdate List m d w))))
      \<longleftrightarrow> HasChange d ''password'')
   \<and> (list_ex isUpdate (issued w (snd (snd (resourceSecurityUserUpdate List m d w))))
      \<longleftrightarrow> profileChanged d \<and> \<not> passwordRefused m d w)
   \<and> (HasChange d ''password'' \<and> profileChanged d \<and> \<not> passwordRefused m d w \<longrightarrow>
        take 2 (issued w (snd (snd (resourceSecurityUserUpdate List m d w))))
          = [CallChangePassword (dId d) (password (attrs d)),
             CallUpdate (dId d) (getSecurityUserFromResourceData List d)])"
  by (simp add: update_calls)

theorem update_calls_amended_witness:
  "issued adminWorld (snd (snd (resourceSecurityUserUpdate adminList memClient bothData adminWorld)))
     = [CallChangePassword ''admin'' ''s3cret'',
        CallUpdate ''admin'' (adminUser\<lparr>EmailAddress := ''ops@example.com'', Password := ''s3cret''\<rparr>),
        CallGet ''admin'']"
proof -
  have r: "\<not> passwordRefused memClient bothData adminWorld"
    by (simp add: passwordRefused_def example_changes)
       (simp add: memClient_def adminWorld_def bothData_def)
  have u: "\<not> updateRefused adminList memClient bothData adminWorld"
    by (simp add: updateRefused_def afterPassword_def example_changes)
       (simp add: memClient_def adminWorld_def bothData_def)
  have t: "take 2 (issued adminWorld
              (snd (snd (resourceSecurityUserUpdate adminList memClient bothData adminWorld))))
           = [CallChangePassword (dId bothData) (password (attrs bothData)),
              CallUpdate (dId bothData) (getSecurityUserFromResourceData adminList bothData)]"
    using update_calls_amended [of adminWorld adminList memClient bothData] r
    by (simp add: example_changes)
  have l: "issued adminWorld
              (snd (snd (resourceSecurityUserUpdate adminList memClient bothData adminWorld)))
           = take 2 (issued adminWorld
              (snd (snd (resourceSecurityUserUpdate adminList memClient bothData adminWorld))))
             @ [CallGet ''admin'']"
    by (simp add: update_calls r u example_changes) (simp add: bothData_def)
  show ?thesis
    by (subst l, subst t) (simp add: example_user, simp add: bothData_def adminAttrs_def)
qed

text \<open>
  C6. When the ChangePassword call returns an error, Update returns that error after
  this one call: no general update call, no Read. When the general update call returns
  an error, Update returns that error and issues no call after it: no Read.
\<close>

theorem update_errors_abort:
  "(passwordRefused m d w \<longrightarrow>
      fst (resourceSecurityUserUpdate List m d w)
        = fst (User_ChangePassword m (dId d) (password (attrs d)) (remote w))
      \<and> fst (resourceSecurityUserUpdate List m d w) \<noteq> None
      \<and> issued w (snd (snd (resourceSecurityUserUpdate List m d w)))
          = [CallChangePassword (dId d) (password (attrs d))]
      \<and> \<not> list_ex isUpdate (issued w (snd (snd (resourceSecurityUserUpdate List m d w))))
      \<and> \<not> list_ex isGet (issued w (snd (snd (resourceSecurityUserUpdate List m d w)))))
   \<and> (\<not> passwordRefused m d w \<and> updateRefused List m d w \<longrightarrow>
      fst (resourceSecurityUserUpdate List m d w)
        = fst (User_Update m (dId d) (getSecurityUserFromResourceData List d)
                 (afterPassword m d w))
      \<and> fst (resourceSecurityUserUpdate List m d w) \<noteq> None
      \<and> issued w (snd (snd (resourceSecurityUserUpdate List m d w)))
          = (if HasChange d ''password''
             then [CallChangePassword (dId d) (password (attrs d))] else [])
            @ [CallUpdate (dId d) (getSecurityUserFromResourceData List d)]
      \<and> \<not> list_ex isGet (issued w (snd (snd (resourceSecurityUserUpdate List m d w)))))"
proof -
  have "passwordRefused m d w \<Longrightarrow>
          fst (User_ChangePassword m (dId d) (password (attrs d)) (remote w)) \<noteq> None"
    by (simp add: passwordRefused_def)
  moreover have "updateRefused List m d w \<Longrightarrow>
          fst (User_Update m (dId d) (getSecurityUserFromResourceData List d)
                 (afterPassword m d w)) \<noteq> None \<and> profileChanged d"
    by (simp add: updateRefused_def)
  moreover have "passwordRefused m d w \<Longrightarrow> HasChange d ''password''"
    by (simp add: passwordRefused_def)
  ultimately show ?thesis
    by (auto simp add: update_calls) (simp_all add: update_unfold)
qed

theorem update_errors_abort_witness:
  "resourceSecurityUserUpdate adminList memClient passwordData emptyWorld
     = (Some (Error ''user not found''), passwordData,
        \<lparr>remote = Map.empty, calls = [CallChangePassword ''admin'' ''s3cret'']\<rparr>)
   \<and> fst (resourceSecurityUserUpdate adminList memClient emailData emptyWorld)
       = Some (Error ''user not found'')
   \<and> issued emptyWorld (snd (snd (resourceSecurityUserUpdate adminList memClient emailData emptyWorld)))
       = [CallUpdate ''admin'' (adminUser\<lparr>EmailAddress := ''ops@example.com''\<rparr>)]"
proof -
  have r1: "passwordRefused memClient passwordData emptyWorld"
    by (simp add: passwordRefused_def example_changes)
       (simp add: memClient_def emptyWorld_def passwordData_def)
  have r2: "\<not> passwordRefused memClient emailData emptyWorld"
    by (simp add: passwordRefused_def example_changes)
  have r3: "updateRefused adminList memClient emailData emptyWorld"
    by (simp add: updateRefused_def afterPassword_def example_changes)
       (simp add: memClient_def emptyWorld_def emailData_def)
  have e1: "fst (User_ChangePassword memClient (dId passwordData) (password (attrs passwordData))
                  (remote emptyWorld)) = Some (Error ''user not found'')"
    by (simp add: memClient_def emptyWorld_def)
  have e2: "fst (User_Update memClient (dId emailData)
                  (getSecurityUserFromResourceData adminList emailData)
                  (afterPassword memClient emailData emptyWorld)) = Some (Error ''user not found'')"
    by (simp add: afterPassword_def example_changes) (simp add: memClient_def emptyWorld_def)
  have a: "fst (resourceSecurityUserUpdate adminList memClient passwordData emptyWorld)
             = Some (Error ''user not found'')
           \<and> issued emptyWorld
                (snd (snd (resourceSecurityUserUpdate adminList memClient passwordData emptyWorld)))
             = [CallChangePassword ''admin'' ''s3cret'']"
    using update_errors_abort [of memClient passwordData emptyWorld adminList] r1 e1
    by (simp add: passwordData_def adminAttrs_def)
  have b: "fst (resourceSecurityUserUpdate adminList memClient emailData emptyWorld)
             = Some (Error ''user not found'')
           \<and> issued emptyWorld
                (snd (snd (resourceSecurityUserUpdate adminList memClient emailData emptyWorld)))
             = [CallUpdate ''admin'' (adminUser\<lparr>EmailAddress := ''ops@example.com''\<rparr>)]"
    using update_errors_abort [of memClient emailData emptyWorld adminList] r2 r3 e2
    by (simp add: example_changes example_user) (simp add: emailData_def)
  have c: "resourceSecurityUserUpdate adminList memClient passwordData emptyWorld
     = (Some (Error ''user not found''), passwordData,
        \<lparr>remote = Map.empty, calls = [CallChangePassword ''admin'' ''s3cret'']\<rparr>)"
    by (simp add: update_unfold r1 e1 afterPassword_def example_changes)
       (simp add: memClient_def emptyWorld_def passwordData_def adminAttrs_def)
  from a b c show ?thesis by simp
qed

text \<open>
  C10. Whenever Update issues the general update call, the call is addressed to the
  identity and carries the user record built from the whole current configuration,
  with the configuration's password in it, also when the password has not changed.
\<close>

theorem update_sends_full_record:
  assumes "CallUpdate i u \<in> set (issued w (snd (snd (resourceSecurityUserUpdate List m d w))))"
  shows "i = dId d \<and> u = getSecurityUserFromResourceData List d
     \<and> Password u = password (attrs d) \<and> UserID u = userid (attrs d)
     \<and> FirstName u = firstname (attrs d) \<and> LastName u = lastname (attrs d)
     \<and> EmailAddress u = email (attrs d) \<and> Status u = status (attrs d)
     \<and> Roles u = List (roles (attrs d))"
proof -
  from assms have "i = dId d \<and> u = getSecurityUserFromResourceData List d"
    by (auto simp add: update_calls split: if_splits)
  then show ?thesis
    by (simp add: getSecurityUserFromResourceData_def interfaceSliceToStringSlice_def)
qed

theorem update_sends_full_record_witness:
  "\<not> HasChange emailData ''password''
   \<and> CallUpdate ''admin'' (adminUser\<lparr>EmailAddress := ''ops@example.com''\<rparr>)
       \<in> set (issued adminWorld
                 (snd (snd (resourceSecurityUserUpdate adminList memClient emailData adminWorld))))
   \<and> Password (adminUser\<lparr>EmailAddress := ''ops@example.com''\<rparr>) = ''admin123''"
proof -
  have r: "\<not> passwordRefused memClient emailData adminWorld"
    by (simp add: passwordRefused_def example_changes)
  have h: "CallUpdate ''admin'' (adminUser\<lparr>EmailAddress := ''ops@example.com''\<rparr>)
       \<in> set (issued adminWorld
                 (snd (snd (resourceSecurityUserUpdate adminList memClient emailData adminWorld))))"
    by (simp add: update_calls r example_changes example_user) (simp add: emailData_def)
  have p: "password (attrs emailData) = ''admin123''"
    by (simp add: emailData_def adminAttrs_def)
  from update_sends_full_record [OF h]
  have "Password (adminUser\<lparr>EmailAddress := ''ops@example.com''\<rparr>) = password (attrs emailData)"
    by (rule conjunct1 [OF conjunct2 [OF conjunct2]])
  with h p show ?thesis
    by (simp add: example_changes)
qed

subsection \<open>The schema and the host\<close>

lemma persist_world: "snd (snd (persist r)) = snd (snd r)"
  by (cases r) (simp add: persist_def)

lemma host_replace_calls:
  "issued w (snd (snd (hostReplace List m i old new w))) =
     CallDelete i
     # (if fst (User_Delete m i (remote w)) = None
        then CallCreate (getSecurityUserFromResourceData List
                           \<lparr>dId = '''', prior = zeroAttributes, attrs = new\<rparr>)
             # (if fst (User_Create m
                          (getSecurityUserFromResourceData List
                             \<lparr>dId = '''', prior = zeroAttributes, attrs = new\<rparr>)
                          (snd (User_Delete m i (remote w)))) = None
                then [CallGet (userid new)] else [])
        else [])"
proof -
  obtain e c where r: "User_Delete m i (remote w) = (e, c)"
    by (cases "User_Delete m i (remote w)")
  show ?thesis
  proof (rule issued_append, cases e)
    case None
    with r show "calls (snd (snd (hostReplace List m i old new w))) = calls w @ CallDelete i
     # (if fst (User_Delete m i (remote w)) = None
        then CallCreate (getSecurityUserFromResourceData List
                           \<lparr>dId = '''', prior = zeroAttributes, attrs = new\<rparr>)
             # (if fst (User_Create m
                          (getSecurityUserFromResourceData List
                             \<lparr>dId = '''', prior = zeroAttributes, attrs = new\<rparr>)
                          (snd (User_Delete m i (remote w)))) = None
                then [CallGet (userid new)] else [])
        else [])"
      by (simp add: hostReplace_def hostCreate_def resourceSecurityUserDelete_def
            client_Delete_def issue_def persist_world create_calls)
  next
    case (Some err)
    with r show "calls (snd (snd (hostReplace List m i old new w))) = calls w @ CallDelete i
     # (if fst (User_Delete m i (remote w)) = None
        then CallCreate (getSecurityUserFromResourceData List
                           \<lparr>dId = '''', prior = zeroAttributes, attrs = new\<rparr>)
             # (if fst (User_Create m
                          (getSecurityUserFromResourceData List
                             \<lparr>dId = '''', prior = zeroAttributes, attrs = new\<rparr>)
                          (snd (User_Delete m i (remote w)))) = None
                then [CallGet (userid new)] else [])
        else [])"
      by (simp add: hostReplace_def resourceSecurityUserDelete_def
            client_Delete_def issue_def persist_world)
  qed
qed

lemma requiresNew_userid:
  "requiresNew resourceSecurityUser_Schema d = HasChange d ''userid''"
  by (simp add: requiresNew_def resourceSecurityUser_Schema_def zeroSchema_def)

lemma status_rejected:
  assumes "c ''status'' = Some (StringVal v)" "v \<noteq> ''active''" "v \<noteq> ''disabled''"
  shows "validateConfig resourceSecurityUser_Schema c \<noteq> []"
proof -
  have "validateAttribute ''status''
          (zeroSchema\<lparr>Default := Some ''active'',
             Description := ''The user's status, e.g. active or disabled.'',
             Type := TypeString, Optional := True,
             ValidateFunc := Some (StringInSlice [''active'', ''disabled''] False)\<rparr>) c \<noteq> []"
    using assms by (simp add: validateAttribute_def StringInSlice_def zeroSchema_def)
  then show ?thesis
    by (simp add: validateConfig_def resourceSecurityUser_Schema_def)
qed

text \<open>
  C7. The schema gives the status the validation function that accepts exactly
  "active" and "disabled", and the default "active". A configuration whose status is
  any other string fails the validation of the schema, and the host returns the errors
  without a client call and with the state as it was. A configuration without a status
  is planned with the status "active".
\<close>

theorem status_validation:
  "(case map_of resourceSecurityUser_Schema ''status'' of
      None \<Rightarrow> False
    | Some s \<Rightarrow>
        Default s = Some ''active''
        \<and> (case ValidateFunc s of
             None \<Rightarrow> False
           | Some f \<Rightarrow> (snd (f (StringVal v) ''status'') = []) = (v = ''active'' \<or> v = ''disabled'')))
   \<and> (c ''status'' = Some (StringVal v) \<and> v \<noteq> ''active'' \<and> v \<noteq> ''disabled'' \<longrightarrow>
        validateConfig resourceSecurityUser_Schema c \<noteq> []
        \<and> hostApply List m c st w = (validateConfig resourceSecurityUser_Schema c, st, w)
        \<and> issued w (snd (snd (hostApply List m c st w))) = [])
   \<and> (c ''status'' = None \<longrightarrow> status (plannedAttributes c) = ''active'')"
proof -
  have a: "case map_of resourceSecurityUser_Schema ''status'' of
      None \<Rightarrow> False
    | Some s \<Rightarrow>
        Default s = Some ''active''
        \<and> (case ValidateFunc s of
             None \<Rightarrow> False
           | Some f \<Rightarrow> (snd (f (StringVal v) ''status'') = []) = (v = ''active'' \<or> v = ''disabled''))"
    by (simp add: resourceSecurityUser_Schema_def zeroSchema_def StringInSlice_def)
  have b: "hostApply List m c st w = (validateConfig resourceSecurityUser_Schema c, st, w)
        \<and> issued w (snd (snd (hostApply List m c st w))) = []"
    if "validateConfig resourceSecurityUser_Schema c \<noteq> []"
    using that
    by (cases "validateConfig resourceSecurityUser_Schema c")
       (simp_all add: hostApply_def issued_def)
  have d: "status (plannedAttributes c) = ''active''" if "c ''status'' = None"
    using that
    by (simp add: plannedAttributes_def configString_def resourceSecurityUser_Schema_def
          zeroSchema_def)
  from a b d status_rejected [of c v] show ?thesis
    by blast
qed

theorem status_validation_witness:
  "hostApply adminList memClient lockedConfig None emptyWorld
     = ([Error ''expected status to be one of [active disabled], got locked''], None, emptyWorld)
   \<and> status (plannedAttributes adminConfig) = ''active''"
proof -
  have h1: "lockedConfig ''status'' = Some (StringVal ''locked'')
            \<and> ''locked'' \<noteq> ''active'' \<and> ''locked'' \<noteq> ''disabled''"
    by (simp add: lockedConfig_def)
  have h2: "adminConfig ''status'' = None"
    by (simp add: adminConfig_def)
  have v: "validateConfig resourceSecurityUser_Schema lockedConfig
             = [Error ''expected status to be one of [active disabled], got locked'']"
    by (simp add: validateConfig_def resourceSecurityUser_Schema_def validateAttribute_def
          zeroSchema_def lockedConfig_def adminConfig_def StringInSlice_def)
  from status_validation [of "''locked''" lockedConfig adminList memClient None emptyWorld] h1
       status_validation [of "''active''" adminConfig adminList memClient None emptyWorld] h2
  show ?thesis
    by (simp add: v)
qed

text \<open>
  C9. The schema marks the userid as forcing recreation. Update never gives the
  resource another identity: after Update the identity is the one before, or empty, and
  it is the one before whenever Update returns an error or the client, at the final
  Read, reports a user; every call that Update issues is addressed to that identity.
  When the userid of a valid configuration differs from the one in the state, the host
  replaces the resource (Delete of the old identity, then Create) and issues neither the
  general update call nor a ChangePassword call.
\<close>

theorem userid_forces_replacement:
  "map_option ForceNew (map_of resourceSecurityUser_Schema ''userid'') = Some True
   \<and> (dId (fst (snd (resourceSecurityUserUpdate List m d w))) = dId d
      \<or> dId (fst (snd (resourceSecurityUserUpdate List m d w))) = '''')
   \<and> (fst (resourceSecurityUserUpdate List m d w) \<noteq> None
        \<or> fst (User_Get m (dId d) (afterUpdate List m d w)) \<noteq> (None, None) \<longrightarrow>
      dId (fst (snd (resourceSecurityUserUpdate List m d w))) = dId d)
   \<and> (\<forall>c \<in> set (issued w (snd (snd (resourceSecurityUserUpdate List m d w)))).
        c = CallChangePassword (dId d) (password (attrs d))
        \<or> c = CallUpdate (dId d) (getSecurityUserFromResourceData List d)
        \<or> c = CallGet (dId d))
   \<and> (validateConfig resourceSecurityUser_Schema c = []
        \<and> userid (plannedAttributes c) \<noteq> userid old \<longrightarrow>
      hostApply List m c (Some (i, old)) w = hostReplace List m i old (plannedAttributes c) w
      \<and> hd (issued w (snd (snd (hostApply List m c (Some (i, old)) w)))) = CallDelete i
      \<and> \<not> list_ex isUpdate (issued w (snd (snd (hostApply List m c (Some (i, old)) w))))
      \<and> \<not> list_ex isChangePassword
            (issued w (snd (snd (hostApply List m c (Some (i, old)) w)))))"
proof -
  have a: "map_option ForceNew (map_of resourceSecurityUser_Schema ''userid'') = Some True"
    by (simp add: resourceSecurityUser_Schema_def zeroSchema_def)
  have b: "dId (fst (snd (resourceSecurityUserUpdate List m d w))) = dId d
      \<or> dId (fst (snd (resourceSecurityUserUpdate List m d w))) = ''''"
    by (simp add: update_dId)
  have e: "dId (fst (snd (resourceSecurityUserUpdate List m d w))) = dId d"
    if "fst (resourceSecurityUserUpdate List m d w) \<noteq> None
        \<or> fst (User_Get m (dId d) (afterUpdate List m d w)) \<noteq> (None, None)"
  proof (cases "\<not> passwordRefused m d w \<and> \<not> updateRefused List m d w
         \<and> fst (User_Get m (dId d) (afterUpdate List m d w)) = (None, None)")
    case False
    then show ?thesis by (auto simp add: update_dId)
  next
    case True
    then have "fst (resourceSecurityUserUpdate List m d w) = None"
      by (simp add: update_unfold resourceSecurityUserRead_def client_Get_def issue_def)
    with that True show ?thesis by simp
  qed
  have f: "\<forall>c \<in> set (issued w (snd (snd (resourceSecurityUserUpdate List m d w)))).
        c = CallChangePassword (dId d) (password (attrs d))
        \<or> c = CallUpdate (dId d) (getSecurityUserFromResourceData List d)
        \<or> c = CallGet (dId d)"
    by (auto simp add: update_calls split: if_splits)
  have g: "hostApply List m c (Some (i, old)) w = hostReplace List m i old (plannedAttributes c) w"
    if "validateConfig resourceSecurityUser_Schema c = []"
       "userid (plannedAttributes c) \<noteq> userid old"
    using that by (simp add: hostApply_def requiresNew_userid HasChange_def Let_def)
  have h: "hd (issued w (snd (snd (hostReplace List m i old new w)))) = CallDelete i
      \<and> \<not> list_ex isUpdate (issued w (snd (snd (hostReplace List m i old new w))))
      \<and> \<not> list_ex isChangePassword (issued w (snd (snd (hostReplace List m i old new w))))"
    for new
    by (simp add: host_replace_calls)
  from a b e f g h show ?thesis
    by simp
qed

theorem userid_forces_replacement_witness:
  "dId (fst (snd (resourceSecurityUserUpdate adminList memClient emailData adminWorld))) = ''admin''
   \<and> issued adminWorld (snd (snd (hostApply adminList memClient rootConfig
                                     (Some (''admin'', adminAttrs)) adminWorld)))
       = [CallDelete ''admin'', CallCreate (adminUser\<lparr>UserID := ''root''\<rparr>), CallGet ''root'']"
proof -
  have r: "\<not> passwordRefused memClient emailData adminWorld"
    by (simp add: passwordRefused_def example_changes)
  have h1: "fst (User_Get memClient (dId emailData) (afterUpdate adminList memClient emailData adminWorld))
              \<noteq> (None, None)"
    by (simp add: afterUpdate_def afterPassword_def example_changes)
       (simp add: memClient_def adminWorld_def emailData_def)
  have h2: "validateConfig resourceSecurityUser_Schema rootConfig = []"
    by (simp add: validateConfig_def resourceSecurityUser_Schema_def validateAttribute_def
          zeroSchema_def rootConfig_def adminConfig_def StringInSlice_def)
  have p: "plannedAttributes rootConfig = adminAttrs\<lparr>userid := ''root''\<rparr>"
    by (simp add: plannedAttributes_def configString_def configSet_def rootConfig_def
          adminConfig_def adminAttrs_def resourceSecurityUser_Schema_def zeroSchema_def)
  have h3: "userid (plannedAttributes rootConfig) \<noteq> userid adminAttrs"
    by (simp add: p) (simp add: adminAttrs_def)
  have u: "getSecurityUserFromResourceData adminList
             \<lparr>dId = '''', prior = zeroAttributes, attrs = adminAttrs\<lparr>userid := ''root''\<rparr>\<rparr>
           = adminUser\<lparr>UserID := ''root''\<rparr>"
    by (simp add: getSecurityUserFromResourceData_def adminAttrs_def adminList_def
          adminUser_def interfaceSliceToStringSlice_def)
  have c: "issued adminWorld (snd (snd (hostReplace adminList memClient ''admin'' adminAttrs
                                          (adminAttrs\<lparr>userid := ''root''\<rparr>) adminWorld)))
       = [CallDelete ''admin'', CallCreate (adminUser\<lparr>UserID := ''root''\<rparr>), CallGet ''root'']"
    by (simp add: host_replace_calls u) (simp add: memClient_def adminWorld_def adminUser_def)
  from userid_forces_replacement [of adminList memClient emailData adminWorld rootConfig
         adminAttrs "''admin''"] h1 h2 h3
  show ?thesis
    by (simp add: p c) (simp add: emailData_def)
qed

end
